theory Spec2Isabelle
  imports Main "HOL-Library.AList"
begin

section \<open>Python values and exceptions\<close>

text \<open>
  The exceptions the logging subsystem can meet.  A function of the source that can raise
  returns a sum, with \<open>Inl\<close> for the exception; a function whose side effects stay when it
  raises returns the exception as an option beside the new state.
\<close>

datatype error =
    TypeError
  | ValueError
  | AttributeError
  | OSError
  | PermissionError
  | FileNotFoundError
  | FileExistsError
  | IsADirectoryError
  | NotADirectoryError

text \<open>
  The values that reach \<open>json.dumps\<close>.  A float is carried by its \<open>repr\<close>.  A list
  stands for a list or a tuple.  Dictionaries have string keys (attribute dictionaries,
  \<open>asdict\<close> results and the \<open>Dict[str, Any]\<close> arguments of the loggers) and keep insertion
  order.  \<open>PObject\<close> is any other Python object (a set, a function, a class instance,
  ...), named by its type.
\<close>

datatype pyval =
    PNone
  | PBool bool
  | PInt int
  | PFloat string
  | PStr string
  | PList "pyval list"
  | PDict "(string \<times> pyval) list"
  | PObject string

type_synonym pydict = "(string \<times> pyval) list"

text \<open>\<open>d[k] = v\<close> keeps the position of an existing key and appends a new one.\<close>

definition dict_set :: "pydict \<Rightarrow> string \<Rightarrow> pyval \<Rightarrow> pydict" where
  "dict_set d k v = AList.update k v d"

text \<open>\<open>d.update(other)\<close> for a dictionary \<open>other\<close>\<close>

definition dict_update :: "pydict \<Rightarrow> pydict \<Rightarrow> pydict" where
  "dict_update d other = fold (\<lambda>(k, v) acc. dict_set acc k v) other d"

text \<open>\<open>x\<close> for a supplied optional string argument, \<open>None\<close> otherwise.\<close>

definition opt_str :: "string option \<Rightarrow> pyval" where
  "opt_str x = (case x of None \<Rightarrow> PNone | Some s \<Rightarrow> PStr s)"

definition opt_int :: "int option \<Rightarrow> pyval" where
  "opt_int x = (case x of None \<Rightarrow> PNone | Some i \<Rightarrow> PInt i)"

definition opt_float :: "string option \<Rightarrow> pyval" where
  "opt_float x = (case x of None \<Rightarrow> PNone | Some r \<Rightarrow> PFloat r)"

definition opt_dict :: "pydict option \<Rightarrow> pyval" where
  "opt_dict x = (case x of None \<Rightarrow> PNone | Some d \<Rightarrow> PDict d)"

text \<open>\<open>metadata or {}\<close>: \<open>None\<close> and the empty dictionary are both falsy.\<close>

definition dict_or_empty :: "pydict option \<Rightarrow> pydict" where
  "dict_or_empty x = (case x of None \<Rightarrow> [] | Some d \<Rightarrow> d)"

section \<open>Numbers as text\<close>

definition digit :: "nat \<Rightarrow> char" where
  "digit n = ''0123456789abcdef'' ! (n mod 16)"

fun show_nat :: "nat \<Rightarrow> string" where
  "show_nat n = (if n < 10 then [digit n] else show_nat (n div 10) @ [digit (n mod 10)])"

declare show_nat.simps [simp del]

text \<open>\<open>int.__repr__\<close>\<close>

definition show_int :: "int \<Rightarrow> string" where
  "show_int i = (if i < 0 then CHR ''-'' # show_nat (nat (- i)) else show_nat (nat i))"

text \<open>\<open>"%0wd" % n\<close>: at least \<open>w\<close> digits, zeros in front.\<close>

definition zfill :: "nat \<Rightarrow> nat \<Rightarrow> string" where
  "zfill w n = replicate (w - length (show_nat n)) CHR ''0'' @ show_nat n"

section \<open>Dates and times\<close>

record date =
  year :: nat
  month :: nat
  day :: nat

text \<open>
  One reading of the clock: the local calendar day and time of day that
  \<open>datetime.now()\<close> returns, the milliseconds \<open>msecs\<close> that a \<open>LogRecord\<close> created at
  this instant computes, and \<open>stamp\<close>, the position of the instant on the time line of
  \<open>time.time()\<close> and of the file system's \<open>st_mtime\<close>.
\<close>

record datetime =
  dt_date :: date
  hour :: nat
  minute :: nat
  second :: nat
  microsecond :: nat
  msecs :: nat
  stamp :: nat

text \<open>
  \<open>date.strftime("%Y-%m-%d")\<close>: the C library writes the year without padding and the
  month and day with two digits.
\<close>

definition strftime_ymd :: "date \<Rightarrow> string" where
  "strftime_ymd d = show_nat (year d) @ ''-'' @ zfill 2 (month d) @ ''-'' @ zfill 2 (day d)"

text \<open>\<open>strftime("%Y-%m-%d %H:%M:%S")\<close>\<close>

definition strftime_ymd_hms :: "datetime \<Rightarrow> string" where
  "strftime_ymd_hms t =
     strftime_ymd (dt_date t) @ '' '' @ zfill 2 (hour t) @ '':'' @ zfill 2 (minute t) @ '':''
       @ zfill 2 (second t)"

text \<open>
  \<open>datetime.isoformat()\<close>: the year with four digits, the microseconds left out when
  they are zero.
\<close>

definition isoformat :: "datetime \<Rightarrow> string" where
  "isoformat t =
     zfill 4 (year (dt_date t)) @ ''-'' @ zfill 2 (month (dt_date t)) @ ''-''
       @ zfill 2 (day (dt_date t)) @ ''T'' @ zfill 2 (hour t) @ '':'' @ zfill 2 (minute t) @ '':''
       @ zfill 2 (second t)
       @ (if microsecond t = 0 then [] else ''.'' @ zfill 6 (microsecond t))"

section \<open>json.dumps\<close>

text \<open>
  \<open>json.dumps(obj, ensure_ascii=False)\<close> and \<open>json.dumps(obj, ensure_ascii=False,
  indent=2)\<close>, with no \<open>default\<close> hook: an object that is not a string, number, boolean,
  \<open>None\<close>, list, tuple or dictionary raises \<open>TypeError\<close>.
\<close>

definition quote_char :: char where
  "quote_char = CHR 0x22"

definition backslash :: char where
  "backslash = CHR 0x5C"

definition newline :: char where
  "newline = CHR 0x0A"

text \<open>The replacement table \<open>ESCAPE_DCT\<close> of \<open>json.encoder\<close>.\<close>

definition escape_char :: "char \<Rightarrow> string" where
  "escape_char c =
     (if c = quote_char then [backslash, quote_char]
      else if c = backslash then [backslash, backslash]
      else if c = newline then [backslash, CHR ''n'']
      else if c = CHR 0x0D then [backslash, CHR ''r'']
      else if c = CHR 0x09 then [backslash, CHR ''t'']
      else if c = CHR 0x08 then [backslash, CHR ''b'']
      else if c = CHR 0x0C then [backslash, CHR ''f'']
      else if (of_char c :: nat) < 32
        then [backslash, CHR ''u'', CHR ''0'', CHR ''0'',
              digit (of_char c div 16), digit (of_char c mod 16)]
      else [c])"

definition py_encode_basestring :: "string \<Rightarrow> string" where
  "py_encode_basestring s = quote_char # concat (map escape_char s) @ [quote_char]"

text \<open>
  The text of a float: its \<open>repr\<close>, and \<open>NaN\<close>, \<open>Infinity\<close>, \<open>-Infinity\<close> for the values
  whose \<open>repr\<close> is \<open>nan\<close>, \<open>inf\<close>, \<open>-inf\<close>.
\<close>

definition floatstr :: "string \<Rightarrow> string" where
  "floatstr r =
     (if r = ''nan'' then ''NaN'' else if r = ''inf'' then ''Infinity''
      else if r = ''-inf'' then ''-Infinity'' else r)"

text \<open>\<open>sep.join(parts)\<close>\<close>

fun join :: "string \<Rightarrow> string list \<Rightarrow> string" where
  "join sep [] = []"
| "join sep [s] = s"
| "join sep (s # t # ss) = s @ sep @ join sep (t # ss)"

text \<open>
  The line break and indentation that the encoder puts before an item at nesting depth
  \<open>lvl\<close> when \<open>indent\<close> is given, and nothing otherwise.
\<close>

definition newline_indent :: "nat option \<Rightarrow> nat \<Rightarrow> string" where
  "newline_indent ind lvl =
     (case ind of None \<Rightarrow> [] | Some n \<Rightarrow> newline # replicate (n * lvl) CHR '' '')"

text \<open>
  The item separator: \<open>", "\<close> by default; with \<open>indent\<close> it is \<open>","\<close> followed by the line
  break and indentation.
\<close>

definition item_separator :: "nat option \<Rightarrow> nat \<Rightarrow> string" where
  "item_separator ind lvl =
     (case ind of None \<Rightarrow> '', '' | Some n \<Rightarrow> '','' @ newline_indent ind lvl)"

fun encode :: "nat option \<Rightarrow> nat \<Rightarrow> pyval \<Rightarrow> error + string"
  and encode_elems :: "nat option \<Rightarrow> nat \<Rightarrow> pyval list \<Rightarrow> error + string list"
  and encode_items :: "nat option \<Rightarrow> nat \<Rightarrow> (string \<times> pyval) list \<Rightarrow> error + string list"
where
  "encode ind lvl PNone = Inr ''null''"
| "encode ind lvl (PBool b) = Inr (if b then ''true'' else ''false'')"
| "encode ind lvl (PInt i) = Inr (show_int i)"
| "encode ind lvl (PFloat r) = Inr (floatstr r)"
| "encode ind lvl (PStr s) = Inr (py_encode_basestring s)"
| "encode ind lvl (PList xs) =
     (if xs = [] then Inr ''[]''
      else case encode_elems ind (Suc lvl) xs of
             Inl e \<Rightarrow> Inl e
           | Inr ss \<Rightarrow>
               Inr (''['' @ newline_indent ind (Suc lvl) @ join (item_separator ind (Suc lvl)) ss
                      @ newline_indent ind lvl @ '']''))"
| "encode ind lvl (PDict kvs) =
     (if kvs = [] then Inr ''{}''
      else case encode_items ind (Suc lvl) kvs of
             Inl e \<Rightarrow> Inl e
           | Inr ss \<Rightarrow>
               Inr (''{'' @ newline_indent ind (Suc lvl) @ join (item_separator ind (Suc lvl)) ss
                      @ newline_indent ind lvl @ ''}''))"
| "encode ind lvl (PObject ty) = Inl TypeError"
| "encode_elems ind lvl [] = Inr []"
| "encode_elems ind lvl (x # xs) =
     (case encode ind lvl x of
        Inl e \<Rightarrow> Inl e
      | Inr s \<Rightarrow> (case encode_elems ind lvl xs of Inl e \<Rightarrow> Inl e | Inr ss \<Rightarrow> Inr (s # ss)))"
| "encode_items ind lvl [] = Inr []"
| "encode_items ind lvl (kv # kvs) =
     (case encode ind lvl (snd kv) of
        Inl e \<Rightarrow> Inl e
      | Inr s \<Rightarrow>
          (case encode_items ind lvl kvs of
             Inl e \<Rightarrow> Inl e
           | Inr ss \<Rightarrow> Inr ((py_encode_basestring (fst kv) @ '': '' @ s) # ss)))"

definition json_dumps :: "nat option \<Rightarrow> pyval \<Rightarrow> error + string" where
  "json_dumps ind obj = encode ind 0 obj"

section \<open>Log records and formatters\<close>

definition NOTSET :: int where "NOTSET = 0"
definition DEBUG :: int where "DEBUG = 10"
definition INFO :: int where "INFO = 20"
definition WARNING :: int where "WARNING = 30"
definition ERROR :: int where "ERROR = 40"
definition CRITICAL :: int where "CRITICAL = 50"

text \<open>
  A \<open>logging.LogRecord\<close>: the attributes its constructor sets that the formatters read,
  and \<open>attrs\<close>, the attributes added afterwards (by \<open>record.x = v\<close> or through
  \<open>extra=\<close>), in the order they were added.  \<open>args\<close> is always empty in this program, so
  \<open>getMessage()\<close> is \<open>msg\<close>.  \<open>exc_info\<close> carries the text \<open>formatException\<close> gives for
  it.  \<open>taskName\<close> is \<open>None\<close> where the constructor sets no such attribute (before
  Python 3.12).
\<close>

record LogRecord =
  name :: string
  levelno :: int
  msg :: string
  created :: datetime
  module :: string
  funcName :: pyval
  lineno :: int
  exc_info :: "string option"
  taskName :: "pyval option"
  attrs :: pydict

text \<open>\<open>logging.getLevelName(level)\<close> for an integer level\<close>

definition getLevelName :: "int \<Rightarrow> string" where
  "getLevelName l =
     (if l = CRITICAL then ''CRITICAL'' else if l = ERROR then ''ERROR''
      else if l = WARNING then ''WARNING'' else if l = INFO then ''INFO''
      else if l = DEBUG then ''DEBUG'' else if l = NOTSET then ''NOTSET''
      else ''Level '' @ show_int l)"

definition getMessage :: "LogRecord \<Rightarrow> string" where
  "getMessage r = msg r"

definition hasattr :: "LogRecord \<Rightarrow> string \<Rightarrow> bool" where
  "hasattr r k \<longleftrightarrow> map_of (attrs r) k \<noteq> None"

definition getattr_default :: "LogRecord \<Rightarrow> string \<Rightarrow> pyval \<Rightarrow> pyval" where
  "getattr_default r k dflt = (case map_of (attrs r) k of None \<Rightarrow> dflt | Some v \<Rightarrow> v)"

text \<open>
  The attribute names that \<open>StructuredFormatter.format\<close> does not copy.
\<close>

definition reserved_attrs :: "string list" where
  "reserved_attrs =
     [''name'', ''levelname'', ''levelno'', ''pathname'', ''filename'',
      ''module'', ''exc_info'', ''exc_text'', ''stack_info'', ''lineno'',
      ''funcName'', ''created'', ''msecs'', ''relativeCreated'', ''thread'',
      ''threadName'', ''processName'', ''process'', ''getMessage'', ''msg'', ''args'']"

text \<open>
  The items of \<open>record.__dict__\<close> that are not in \<open>reserved_attrs\<close>, in order: of the
  attributes the constructor sets only \<open>taskName\<close>, then the added ones.
\<close>

definition custom_items :: "LogRecord \<Rightarrow> pydict" where
  "custom_items r =
     (case taskName r of None \<Rightarrow> [] | Some v \<Rightarrow> [(''taskName'', v)])
       @ filter (\<lambda>kv. fst kv \<notin> set reserved_attrs) (attrs r)"

text \<open>\<open>StructuredFormatter.format\<close>\<close>

definition structured_log_data :: "LogRecord \<Rightarrow> pydict" where
  "structured_log_data r =
     (let log_data =
            [(''timestamp'', PStr (isoformat (created r))),
             (''level'', PStr (getLevelName (levelno r))),
             (''logger'', PStr (name r)),
             (''message'', PStr (getMessage r)),
             (''module'', PStr (module r)),
             (''function'', funcName r),
             (''line'', PInt (lineno r))];
          log_data = (case exc_info r of
                        None \<Rightarrow> log_data
                      | Some tb \<Rightarrow> dict_set log_data ''exception'' (PStr tb))
      in fold (\<lambda>(key, v) acc. dict_set acc key v) (custom_items r) log_data)"

definition StructuredFormatter_format :: "LogRecord \<Rightarrow> error + string" where
  "StructuredFormatter_format r = json_dumps None (PDict (structured_log_data r))"

text \<open>
  The characters of a string: each byte that starts a character of UTF-8 with the
  continuation bytes after it.
\<close>

fun utf8_chars :: "string \<Rightarrow> string list" where
  "utf8_chars [] = []"
| "utf8_chars (c # cs) =
     (case utf8_chars cs of
        [] \<Rightarrow> [[c]]
      | [] # rest \<Rightarrow> [c] # rest
      | (d # ds) # rest \<Rightarrow>
          if (128::nat) \<le> of_char d \<and> (of_char d :: nat) < 192 then (c # d # ds) # rest
          else [c] # (d # ds) # rest)"

text \<open>
  One element of the sequence given to \<open>dict.update\<close>, as a key and a value: a sequence of
  length two whose first element is a string.  (A key that is hashable and not a string
  is outside the value model, whose dictionaries have string keys, and is taken as an
  error; an object outside the value model is taken as not iterable.)
\<close>

definition update_pair :: "pyval \<Rightarrow> error + string \<times> pyval" where
  "update_pair x =
     (case x of
        PList [PStr k, v] \<Rightarrow> Inr (k, v)
      | PList [k, v] \<Rightarrow> Inl TypeError
      | PList xs \<Rightarrow> Inl ValueError
      | PStr s \<Rightarrow>
          (case utf8_chars s of [a, b] \<Rightarrow> Inr (a, PStr b) | cs \<Rightarrow> Inl ValueError)
      | PDict [(k1, v1), (k2, v2)] \<Rightarrow> Inr (k1, PStr k2)
      | PDict kvs \<Rightarrow> Inl ValueError
      | v \<Rightarrow> Inl TypeError)"

fun update_pairs :: "pydict \<Rightarrow> pyval list \<Rightarrow> error + pydict" where
  "update_pairs d [] = Inr d"
| "update_pairs d (x # xs) =
     (case update_pair x of Inl e \<Rightarrow> Inl e | Inr (k, v) \<Rightarrow> update_pairs (dict_set d k v) xs)"

text \<open>
  \<open>d.update(other)\<close> for any value: a dictionary, or a sequence of pairs (what was set
  before an element fails is lost with the record).  The elements of a string are its
  characters, none of which is a pair.
\<close>

definition dict_update_value :: "pydict \<Rightarrow> pyval \<Rightarrow> error + pydict" where
  "dict_update_value d other =
     (case other of
        PDict kvs \<Rightarrow> Inr (dict_update d kvs)
      | PList xs \<Rightarrow> update_pairs d xs
      | PStr s \<Rightarrow> if s = [] then Inr d else Inl ValueError
      | v \<Rightarrow> Inl TypeError)"

text \<open>\<open>InteractionFormatter.format\<close>\<close>

definition interaction_log_data :: "LogRecord \<Rightarrow> error + pydict" where
  "interaction_log_data r =
     (let log_data =
            [(''timestamp'', PStr (strftime_ymd_hms (created r))),
             (''session_id'', getattr_default r ''session_id'' (PStr ''unknown'')),
             (''interaction_type'', getattr_default r ''interaction_type'' (PStr ''general'')),
             (''user_id'', getattr_default r ''user_id'' (PStr ''anonymous'')),
             (''message'', PStr (getMessage r))]
      in case (case map_of (attrs r) ''interaction_data'' of
                 None \<Rightarrow> Inr log_data
               | Some v \<Rightarrow> dict_update_value log_data v) of
           Inl e \<Rightarrow> Inl e
         | Inr log_data \<Rightarrow>
             (let log_data = (case map_of (attrs r) ''duration'' of
                                None \<Rightarrow> log_data
                              | Some v \<Rightarrow> dict_set log_data ''duration_ms'' v);
                  log_data = (case map_of (attrs r) ''agent_name'' of
                                None \<Rightarrow> log_data
                              | Some v \<Rightarrow> dict_set log_data ''agent'' v);
                  log_data = (case map_of (attrs r) ''tool_name'' of
                                None \<Rightarrow> log_data
                              | Some v \<Rightarrow> dict_set log_data ''tool'' v)
              in Inr log_data))"

definition InteractionFormatter_format :: "LogRecord \<Rightarrow> error + string" where
  "InteractionFormatter_format r =
     (case interaction_log_data r of
        Inl e \<Rightarrow> Inl e
      | Inr log_data \<Rightarrow> json_dumps (Some 2) (PDict log_data))"

text \<open>
  The formatters a handler can carry: the default of \<open>logging\<close> (the message alone), the
  console format of \<open>setup_logging\<close>, and the two JSON formatters.
\<close>

datatype formatter =
    DefaultFormatter
  | ConsoleFormatter
  | StructuredFormatter
  | InteractionFormatter

text \<open>
  The end of \<open>logging.Formatter.format\<close>: the exception text goes on a new line.
\<close>

definition with_exc_text :: "LogRecord \<Rightarrow> string \<Rightarrow> string" where
  "with_exc_text r s =
     (case exc_info r of
        None \<Rightarrow> s
      | Some tb \<Rightarrow> (if s \<noteq> [] \<and> last s = newline then s else s @ [newline]) @ tb)"

text \<open>\<open>%(asctime)s\<close>: the time to the second, a comma, and \<open>"%03d" % record.msecs\<close>.\<close>

definition asctime :: "LogRecord \<Rightarrow> string" where
  "asctime r = strftime_ymd_hms (created r) @ '','' @ zfill 3 (msecs (created r))"

fun format :: "formatter \<Rightarrow> LogRecord \<Rightarrow> error + string" where
  "format DefaultFormatter r = Inr (with_exc_text r (getMessage r))"
| "format ConsoleFormatter r =
     Inr (with_exc_text r
            (asctime r @ '' - '' @ name r @ '' - '' @ getLevelName (levelno r) @ '' - ''
               @ getMessage r))"
| "format StructuredFormatter r = StructuredFormatter_format r"
| "format InteractionFormatter r = InteractionFormatter_format r"

section \<open>The file system\<close>

text \<open>
  A path is the list of its components, relative to the working directory \<open>[]\<close>.  The
  file system holds the directories with the time of their last modification, the
  directories in which no entry can be created or removed (\<open>readonly\<close>, a permission
  error), whether the device is full (then every write of data fails), the streams that
  are open (the path each was opened on), and the files in directory order: a file keeps
  the chunks written to it and the time of its last modification.  \<open>fnmatch\<close> is the
  matcher of the platform for one path component: \<open>fnmatch fs name pattern\<close> says whether
  the regular expression that \<open>fnmatch.translate(pattern)\<close> gives matches \<open>name\<close>.
\<close>

type_synonym path = "string list"

record inode =
  content :: "string list"
  mtime :: nat

record filesystem =
  dirs :: "(path \<times> nat) list"
  readonly :: "path list"
  full :: bool
  fnmatch :: "string \<Rightarrow> string \<Rightarrow> bool"
  opened :: "path list"
  files :: "(path \<times> inode) list"

definition is_dir :: "filesystem \<Rightarrow> path \<Rightarrow> bool" where
  "is_dir fs p \<longleftrightarrow> p = [] \<or> map_of (dirs fs) p \<noteq> None"

definition is_file :: "filesystem \<Rightarrow> path \<Rightarrow> bool" where
  "is_file fs p \<longleftrightarrow> map_of (files fs) p \<noteq> None"

text \<open>
  Walking from the directory \<open>pre\<close> through the components \<open>cs\<close>: the error of the
  first component that is not a directory.
\<close>

fun walk :: "filesystem \<Rightarrow> path \<Rightarrow> string list \<Rightarrow> error option" where
  "walk fs pre [] = None"
| "walk fs pre (c # cs) =
     (if is_dir fs (pre @ [c]) then walk fs (pre @ [c]) cs
      else if is_file fs (pre @ [c]) then Some NotADirectoryError
      else Some FileNotFoundError)"

text \<open>The error of reaching the directory that is to hold \<open>p\<close>.\<close>

definition resolve_parent :: "filesystem \<Rightarrow> path \<Rightarrow> error option" where
  "resolve_parent fs p = walk fs [] (butlast p)"

text \<open>Creating or removing an entry of a directory sets the directory's time.\<close>

definition touch_dir :: "filesystem \<Rightarrow> path \<Rightarrow> nat \<Rightarrow> filesystem" where
  "touch_dir fs p t = fs\<lparr>dirs := map (\<lambda>e. if fst e = p then (fst e, t) else e) (dirs fs)\<rparr>"

text \<open>\<open>os.mkdir(p)\<close> at time \<open>t\<close>\<close>

definition os_mkdir :: "filesystem \<Rightarrow> path \<Rightarrow> nat \<Rightarrow> error + filesystem" where
  "os_mkdir fs p t =
     (case resolve_parent fs p of
        Some e \<Rightarrow> Inl e
      | None \<Rightarrow>
          if is_dir fs p \<or> is_file fs p then Inl FileExistsError
          else if butlast p \<in> set (readonly fs) then Inl PermissionError
          else Inr ((touch_dir fs (butlast p) t)\<lparr>dirs := dirs (touch_dir fs (butlast p) t) @ [(p, t)]\<rparr>))"

text \<open>
  \<open>Path.mkdir(exist_ok=True)\<close>: a missing parent is an error; any other error is
  ignored when the path is a directory.
\<close>

definition mkdir :: "filesystem \<Rightarrow> path \<Rightarrow> nat \<Rightarrow> error + filesystem" where
  "mkdir fs p t =
     (case os_mkdir fs p t of
        Inr fs' \<Rightarrow> Inr fs'
      | Inl e \<Rightarrow> if e \<noteq> FileNotFoundError \<and> is_dir fs p then Inr fs else Inl e)"

text \<open>\<open>Path.mkdir(parents=True, exist_ok=True)\<close>: a missing parent is created first.\<close>

function mkdir_parents :: "filesystem \<Rightarrow> path \<Rightarrow> nat \<Rightarrow> error + filesystem" where
  "mkdir_parents fs p t =
     (case os_mkdir fs p t of
        Inr fs' \<Rightarrow> Inr fs'
      | Inl e \<Rightarrow>
          if e = FileNotFoundError then
            (if p = [] then Inl e
             else case mkdir_parents fs (butlast p) t of
                    Inl e' \<Rightarrow> Inl e'
                  | Inr fs' \<Rightarrow> mkdir fs' p t)
          else if is_dir fs p then Inr fs else Inl e)"
  by pat_completeness auto
termination
  by (relation "measure (\<lambda>(fs, p, t). length p)") auto

declare mkdir_parents.simps [simp del]

text \<open>
  \<open>open(p, "a")\<close> at time \<open>t\<close>: creates the file when it is missing; the stream is then
  open.
\<close>

definition open_append :: "filesystem \<Rightarrow> path \<Rightarrow> nat \<Rightarrow> error + filesystem" where
  "open_append fs p t =
     (case resolve_parent fs p of
        Some e \<Rightarrow> Inl e
      | None \<Rightarrow>
          if is_dir fs p then Inl IsADirectoryError
          else if is_file fs p then Inr (fs\<lparr>opened := opened fs @ [p]\<rparr>)
          else if butlast p \<in> set (readonly fs) then Inl PermissionError
          else Inr ((touch_dir fs (butlast p) t)
                      \<lparr>opened := opened fs @ [p],
                       files := files fs @ [(p, \<lparr>content = [], mtime = t\<rparr>)]\<rparr>))"

text \<open>\<open>stream.close()\<close> of a stream opened on \<open>p\<close>\<close>

definition close_stream :: "filesystem \<Rightarrow> path \<Rightarrow> filesystem" where
  "close_stream fs p = fs\<lparr>opened := remove1 p (opened fs)\<rparr>"

text \<open>
  \<open>stream.write(txt)\<close> and \<open>flush()\<close> on the stream opened on \<open>p\<close>, at time \<open>t\<close>.  A
  stream whose file has been unlinked writes to no file of the directory.
\<close>

definition write_file :: "filesystem \<Rightarrow> path \<Rightarrow> string \<Rightarrow> nat \<Rightarrow> error + filesystem" where
  "write_file fs p txt t =
     (if full fs then Inl OSError
      else Inr (fs\<lparr>files := map (\<lambda>e. if fst e = p
                                       then (fst e, (snd e)\<lparr>content := content (snd e) @ [txt],
                                                            mtime := t\<rparr>)
                                       else e) (files fs)\<rparr>))"

text \<open>\<open>Path.unlink()\<close> at time \<open>t\<close>\<close>

definition unlink :: "filesystem \<Rightarrow> path \<Rightarrow> nat \<Rightarrow> error + filesystem" where
  "unlink fs p t =
     (case resolve_parent fs p of
        Some e \<Rightarrow> Inl e
      | None \<Rightarrow>
          if is_dir fs p then Inl IsADirectoryError
          else if \<not> is_file fs p then Inl FileNotFoundError
          else if butlast p \<in> set (readonly fs) then Inl PermissionError
          else Inr ((touch_dir fs (butlast p) t)\<lparr>files := filter (\<lambda>e. fst e \<noteq> p) (files fs)\<rparr>))"

text \<open>Whether \<open>**\<close> occurs in a pattern.\<close>

fun has_double_star :: "string \<Rightarrow> bool" where
  "has_double_star (a # b # cs) \<longleftrightarrow> (a = CHR ''*'' \<and> b = CHR ''*'') \<or> has_double_star (b # cs)"
| "has_double_star cs \<longleftrightarrow> False"

text \<open>
  \<open>dir.glob(pattern)\<close> for a pattern of one component with a wildcard: the entries of
  \<open>dir\<close>, files and directories, whose name matches, each with the \<open>st_mtime\<close> of its
  \<open>stat()\<close>; the files in directory order, then the directories.  A pattern that
  contains \<open>**\<close> without being \<open>**\<close> raises \<open>ValueError\<close> (up to Python 3.12); a
  directory that cannot be listed has no entries.
\<close>

definition glob :: "filesystem \<Rightarrow> path \<Rightarrow> string \<Rightarrow> error + (path \<times> nat) list" where
  "glob fs dir pattern =
     (if has_double_star pattern then Inl ValueError
      else if \<not> is_dir fs dir then Inr []
      else Inr (map (\<lambda>e. (fst e, mtime (snd e)))
                  (filter (\<lambda>e. fst e \<noteq> [] \<and> butlast (fst e) = dir
                                \<and> fnmatch fs (last (fst e)) pattern) (files fs))
                @ filter (\<lambda>e. fst e \<noteq> [] \<and> butlast (fst e) = dir
                              \<and> fnmatch fs (last (fst e)) pattern) (dirs fs)))"

text \<open>
  The matcher for a pattern whose only special characters are \<open>*\<close> (any run of
  characters) and \<open>?\<close> (one character), on names of one-byte characters.
\<close>

fun simple_fnmatch :: "string \<Rightarrow> string \<Rightarrow> bool" where
  "simple_fnmatch [] [] \<longleftrightarrow> True"
| "simple_fnmatch (c # cs) [] \<longleftrightarrow> False"
| "simple_fnmatch [] (p # ps) \<longleftrightarrow> p = CHR ''*'' \<and> simple_fnmatch [] ps"
| "simple_fnmatch (c # cs) (p # ps) \<longleftrightarrow>
     (if p = CHR ''*'' then simple_fnmatch (c # cs) ps \<or> simple_fnmatch cs (p # ps)
      else (p = CHR ''?'' \<or> p = c) \<and> simple_fnmatch cs ps)"

section \<open>The rotating file handler\<close>

text \<open>\<open>Path(filename)\<close>, split into \<open>parent\<close>, \<open>stem\<close> and \<open>suffix\<close>.\<close>

record base_path =
  parent :: path
  stem :: string
  suffix :: string

text \<open>
  \<open>DateRotatingFileHandler\<close>.  \<open>stream\<close> is the path the open stream was opened on, or
  \<open>None\<close> when the handler has no open stream.
\<close>

record DateRotatingFileHandler =
  base_filename :: base_path
  max_files :: int
  current_date :: date
  baseFilename :: path
  stream :: "path option"
  level :: int
  formatter :: formatter

definition get_dated_filename :: "DateRotatingFileHandler \<Rightarrow> date option \<Rightarrow> path" where
  "get_dated_filename h dopt =
     (let d = (case dopt of None \<Rightarrow> current_date h | Some d \<Rightarrow> d);
          date_str = strftime_ymd d
      in parent (base_filename h) @ [stem (base_filename h) @ ''_'' @ date_str @ suffix (base_filename h)])"

text \<open>\<open>xs[:k]\<close>\<close>

definition slice_to :: "'a list \<Rightarrow> int \<Rightarrow> 'a list" where
  "slice_to xs k = (if 0 \<le> k then take (nat k) xs else take (length xs - nat (- k)) xs)"

text \<open>\<open>file_path.unlink()\<close> inside \<open>try ... except OSError: pass\<close>\<close>

definition unlink_ignore :: "nat \<Rightarrow> path \<Rightarrow> filesystem \<Rightarrow> filesystem" where
  "unlink_ignore t p fs = (case unlink fs p t of Inl e \<Rightarrow> fs | Inr fs' \<Rightarrow> fs')"

text \<open>
  The paths \<open>_cleanup_old_files\<close> goes on to unlink; none when \<open>glob\<close> raises, since the
  whole body is inside \<open>try ... except Exception: pass\<close>.
\<close>

definition files_to_remove :: "DateRotatingFileHandler \<Rightarrow> filesystem \<Rightarrow> path list" where
  "files_to_remove h fs =
     (let pattern = stem (base_filename h) @ ''_*.log''
      in case glob fs (parent (base_filename h)) pattern of
           Inl e \<Rightarrow> []
         | Inr log_files \<Rightarrow>
             if int (length log_files) \<le> max_files h then []
             else map fst (slice_to (sort_key snd log_files) (- max_files h)))"

text \<open>\<open>_cleanup_old_files\<close>, at time \<open>t\<close>\<close>

definition cleanup_old_files :: "DateRotatingFileHandler \<Rightarrow> nat \<Rightarrow> filesystem \<Rightarrow> filesystem" where
  "cleanup_old_files h t fs = fold (unlink_ignore t) (files_to_remove h fs) fs"

text \<open>
  The constructor, at clock reading \<open>now\<close>.  What it did to the file system before an
  exception stays.
\<close>

definition DateRotatingFileHandler_init ::
  "base_path \<Rightarrow> int \<Rightarrow> datetime \<Rightarrow> filesystem \<Rightarrow> (error + DateRotatingFileHandler) \<times> filesystem" where
  "DateRotatingFileHandler_init filename mf now fs =
     (let h = \<lparr>base_filename = filename, max_files = mf, current_date = dt_date now,
                baseFilename = [], stream = None, level = NOTSET, formatter = DefaultFormatter\<rparr>;
          dated_filename = get_dated_filename h None
      in case mkdir_parents fs (butlast dated_filename) (stamp now) of
           Inl e \<Rightarrow> (Inl e, fs)
         | Inr fs1 \<Rightarrow>
             (case open_append fs1 dated_filename (stamp now) of
                Inl e \<Rightarrow> (Inl e, fs1)
              | Inr fs2 \<Rightarrow>
                  (let h = h\<lparr>baseFilename := dated_filename, stream := Some dated_filename\<rparr>
                   in (Inr h, cleanup_old_files h (stamp now) fs2))))"

text \<open>
  \<open>StreamHandler.emit\<close> on the stream opened on \<open>p\<close>: an exception of the formatter or
  of the write is caught (\<open>handleError\<close> reports it on stderr) and the record is not
  written.
\<close>

definition StreamHandler_emit ::
  "formatter \<Rightarrow> path \<Rightarrow> datetime \<Rightarrow> LogRecord \<Rightarrow> filesystem \<Rightarrow> filesystem" where
  "StreamHandler_emit fmt p now r fs =
     (case format fmt r of
        Inl e \<Rightarrow> fs
      | Inr s \<Rightarrow> (case write_file fs p (s @ [newline]) (stamp now) of Inl e \<Rightarrow> fs | Inr fs' \<Rightarrow> fs'))"

text \<open>\<open>FileHandler.emit\<close> (mode \<open>"a"\<close>): a handler with no stream opens its file again.\<close>

definition FileHandler_emit ::
  "DateRotatingFileHandler \<Rightarrow> datetime \<Rightarrow> LogRecord \<Rightarrow> filesystem
     \<Rightarrow> error option \<times> DateRotatingFileHandler \<times> filesystem" where
  "FileHandler_emit h now r fs =
     (case stream h of
        None \<Rightarrow>
          (case open_append fs (baseFilename h) (stamp now) of
             Inl e \<Rightarrow> (Some e, h, fs)
           | Inr fs' \<Rightarrow>
               (None, h\<lparr>stream := Some (baseFilename h)\<rparr>,
                StreamHandler_emit (formatter h) (baseFilename h) now r fs'))
      | Some p \<Rightarrow> (None, h, StreamHandler_emit (formatter h) p now r fs))"

text \<open>\<open>FileHandler.close\<close>: the open stream, if any, is closed.\<close>

definition close :: "DateRotatingFileHandler \<Rightarrow> filesystem \<Rightarrow> DateRotatingFileHandler \<times> filesystem" where
  "close h fs =
     (case stream h of None \<Rightarrow> (h, fs) | Some p \<Rightarrow> (h\<lparr>stream := None\<rparr>, close_stream fs p))"

text \<open>\<open>DateRotatingFileHandler.emit\<close>, at clock reading \<open>now\<close>.\<close>

definition emit ::
  "DateRotatingFileHandler \<Rightarrow> datetime \<Rightarrow> LogRecord \<Rightarrow> filesystem
     \<Rightarrow> error option \<times> DateRotatingFileHandler \<times> filesystem" where
  "emit h now r fs =
     (let today = dt_date now
      in if today \<noteq> current_date h then
           (case close h fs of
              (h, fs) \<Rightarrow>
                (let h = h\<lparr>current_date := today\<rparr>;
                     new_filename = get_dated_filename h None;
                     h = h\<lparr>baseFilename := new_filename\<rparr>;
                     h = h\<lparr>stream := None\<rparr>;
                     fs = cleanup_old_files h (stamp now) fs
                 in FileHandler_emit h now r fs))
         else FileHandler_emit h now r fs)"

section \<open>Loggers and their handlers\<close>

text \<open>
  A handler of a logger: a rotating file handler, or the console handler (a
  \<open>StreamHandler\<close> on stderr with its level and formatter).
\<close>

datatype handler =
    FileH DateRotatingFileHandler
  | ConsoleH int formatter

definition handler_level :: "handler \<Rightarrow> int" where
  "handler_level h = (case h of FileH fh \<Rightarrow> level fh | ConsoleH l fmt \<Rightarrow> l)"

record Logger =
  logger_level :: int
  propagate :: bool
  handlers :: "handler list"

record InteractionLogger =
  obj_id :: nat
  session_id :: string

text \<open>
  The state of the process: the file system, what was written to stderr, the loggers that
  \<open>logging.getLogger\<close> has created (the root logger under the name \<open>root\<close>), the
  attributes of the module \<open>logging\<close> (with ASCII names), the \<open>taskName\<close> that the
  constructor of \<open>LogRecord\<close> sets, the values \<open>uuid.uuid4()\<close> returns one after the other,
  the number of objects created so far (an object is identified by its number), and the
  module-level \<open>_global_logger\<close>.
\<close>

record world =
  fsys :: filesystem
  stderr :: "string list"
  loggers :: "(string \<times> Logger) list"
  logging_module :: "string \<Rightarrow> pyval option"
  task_name :: "pyval option"
  uuids :: "nat \<Rightarrow> string"
  uuid_count :: nat
  next_obj :: nat
  global_logger :: "InteractionLogger option"

text \<open>\<open>str(uuid.uuid4())\<close>\<close>

definition uuid4 :: "world \<Rightarrow> string \<times> world" where
  "uuid4 w = (uuids w (uuid_count w), w\<lparr>uuid_count := Suc (uuid_count w)\<rparr>)"

text \<open>
  The logger of a name as \<open>logging.getLogger\<close> returns it: the root logger starts at
  \<open>WARNING\<close>, any other logger at \<open>NOTSET\<close>, both with no handler and \<open>propagate\<close> set.
\<close>

definition new_logger :: "string \<Rightarrow> Logger" where
  "new_logger n =
     \<lparr>logger_level = (if n = ''root'' then WARNING else NOTSET), propagate = True, handlers = []\<rparr>"

definition get_logger :: "world \<Rightarrow> string \<Rightarrow> Logger" where
  "get_logger w n = (case map_of (loggers w) n of None \<Rightarrow> new_logger n | Some l \<Rightarrow> l)"

definition set_logger :: "string \<Rightarrow> Logger \<Rightarrow> world \<Rightarrow> world" where
  "set_logger n l w = w\<lparr>loggers := AList.update n l (loggers w)\<rparr>"

text \<open>\<open>logging.getLogger(n)\<close>: creates the logger when there is none.\<close>

definition getLogger :: "string \<Rightarrow> world \<Rightarrow> world" where
  "getLogger n w = set_logger n (get_logger w n) w"

text \<open>
  \<open>Handler.handle\<close>: the handler's \<open>emit\<close>.  The console handler writes the formatted
  record to stderr.
\<close>

definition handle ::
  "handler \<Rightarrow> datetime \<Rightarrow> LogRecord \<Rightarrow> filesystem \<times> string list
     \<Rightarrow> error option \<times> handler \<times> filesystem \<times> string list" where
  "handle h now r st =
     (case h of
        FileH fh \<Rightarrow>
          (case emit fh now r (fst st) of (e, fh', fs') \<Rightarrow> (e, FileH fh', fs', snd st))
      | ConsoleH l fmt \<Rightarrow>
          (case format fmt r of
             Inl e \<Rightarrow> (None, h, st)
           | Inr s \<Rightarrow> (None, h, fst st, snd st @ [s @ [newline]])))"

text \<open>
  The loop \<open>for hdlr in c.handlers\<close> of \<open>Logger.callHandlers\<close>; an exception leaves the
  loop.
\<close>

fun run_handlers ::
  "handler list \<Rightarrow> datetime \<Rightarrow> LogRecord \<Rightarrow> filesystem \<times> string list
     \<Rightarrow> error option \<times> handler list \<times> filesystem \<times> string list" where
  "run_handlers [] now r st = (None, [], st)"
| "run_handlers (h # hs) now r st =
     (if handler_level h \<le> levelno r then
        (case handle h now r st of
           (Some e, h', st') \<Rightarrow> (Some e, h' # hs, st')
         | (None, h', st') \<Rightarrow>
             (case run_handlers hs now r st' of (e, hs', st'') \<Rightarrow> (e, h' # hs', st'')))
      else (case run_handlers hs now r st of (e, hs', st') \<Rightarrow> (e, h # hs', st')))"

definition call_logger_handlers ::
  "string \<Rightarrow> datetime \<Rightarrow> LogRecord \<Rightarrow> world \<Rightarrow> error option \<times> world" where
  "call_logger_handlers n now r w =
     (let c = get_logger w n
      in case run_handlers (handlers c) now r (fsys w, stderr w) of
           (e, hs, fs', err') \<Rightarrow>
             (e, set_logger n (c\<lparr>handlers := hs\<rparr>) (w\<lparr>fsys := fs', stderr := err'\<rparr>)))"

text \<open>The handler of last resort: stderr, at \<open>WARNING\<close>, the message alone.\<close>

definition lastResort :: "LogRecord \<Rightarrow> world \<Rightarrow> world" where
  "lastResort r w =
     (if WARNING \<le> levelno r then w\<lparr>stderr := stderr w @ [getMessage r @ [newline]]\<rparr> else w)"

text \<open>
  \<open>Logger.callHandlers\<close> on the logger named \<open>n\<close>.  No logger named \<open>deer_flow\<close> is ever
  created, so the parent of every channel logger is the root logger.
\<close>

definition callHandlers ::
  "string \<Rightarrow> datetime \<Rightarrow> LogRecord \<Rightarrow> world \<Rightarrow> error option \<times> world" where
  "callHandlers n now r w =
     (let c = get_logger w n
      in case call_logger_handlers n now r w of
           (Some e, w1) \<Rightarrow> (Some e, w1)
         | (None, w1) \<Rightarrow>
             (if propagate c \<and> n \<noteq> ''root'' then
                (case call_logger_handlers ''root'' now r w1 of
                   (Some e, w2) \<Rightarrow> (Some e, w2)
                 | (None, w2) \<Rightarrow>
                     (None, if handlers c = [] \<and> handlers (get_logger w ''root'') = []
                            then lastResort r w2 else w2))
              else (None, if handlers c = [] then lastResort r w1 else w1)))"

text \<open>\<open>Logger.handle\<close>: no logger is disabled and none has a filter.\<close>

definition Logger_handle ::
  "string \<Rightarrow> datetime \<Rightarrow> LogRecord \<Rightarrow> world \<Rightarrow> error option \<times> world" where
  "Logger_handle n now r w = callHandlers n now r w"

definition getEffectiveLevel :: "world \<Rightarrow> string \<Rightarrow> int" where
  "getEffectiveLevel w n =
     (if logger_level (get_logger w n) \<noteq> 0 then logger_level (get_logger w n)
      else if n \<noteq> ''root'' \<and> logger_level (get_logger w ''root'') \<noteq> 0
        then logger_level (get_logger w ''root'')
      else NOTSET)"

text \<open>
  \<open>Logger.isEnabledFor(level)\<close>; \<open>logging.disable\<close> is never called, so the manager's
  \<open>disable\<close> is 0.
\<close>

definition isEnabledFor :: "world \<Rightarrow> string \<Rightarrow> int \<Rightarrow> bool" where
  "isEnabledFor w n lvl \<longleftrightarrow> \<not> lvl \<le> 0 \<and> getEffectiveLevel w n \<le> lvl"

text \<open>
  \<open>Logger.log(level, msg, extra=extra)\<close> with an integer level, called from function
  \<open>func\<close> at line \<open>line\<close> of module \<open>interaction_logger\<close>: the record is made and handled
  when the logger is enabled for the level.
\<close>

definition Logger_log ::
  "string \<Rightarrow> int \<Rightarrow> string \<Rightarrow> pydict \<Rightarrow> string \<Rightarrow> int \<Rightarrow> datetime \<Rightarrow> world \<Rightarrow> error option \<times> world" where
  "Logger_log n lvl message extra func line now w =
     (if isEnabledFor w n lvl then
        Logger_handle n now
          \<lparr>name = n, levelno = lvl, msg = message, created = now, module = ''interaction_logger'',
           funcName = PStr func, lineno = line, exc_info = None, taskName = task_name w,
           attrs = extra\<rparr> w
      else (None, w))"

text \<open>The table \<open>_nameToLevel\<close>\<close>

definition nameToLevel :: "string \<Rightarrow> int option" where
  "nameToLevel s =
     (if s = ''CRITICAL'' \<or> s = ''FATAL'' then Some CRITICAL
      else if s = ''ERROR'' then Some ERROR
      else if s = ''WARNING'' \<or> s = ''WARN'' then Some WARNING
      else if s = ''INFO'' then Some INFO
      else if s = ''DEBUG'' then Some DEBUG
      else if s = ''NOTSET'' then Some NOTSET
      else None)"

text \<open>
  \<open>_checkLevel(level)\<close>, which \<open>setLevel\<close> applies: an integer (a boolean is one), or the
  name of a level.
\<close>

definition checkLevel :: "pyval \<Rightarrow> error + int" where
  "checkLevel v =
     (case v of
        PInt i \<Rightarrow> Inr i
      | PBool b \<Rightarrow> Inr (if b then 1 else 0)
      | PStr s \<Rightarrow> (case nameToLevel s of None \<Rightarrow> Inl ValueError | Some l \<Rightarrow> Inr l)
      | v \<Rightarrow> Inl TypeError)"

text \<open>\<open>getattr(logging, name)\<close>; no attribute of the module has a name outside ASCII.\<close>

definition getattr_logging :: "world \<Rightarrow> string \<Rightarrow> error + pyval" where
  "getattr_logging w s =
     (if list_ex (\<lambda>c. (128::nat) \<le> of_char c) s then Inl AttributeError
      else case logging_module w s of None \<Rightarrow> Inl AttributeError | Some v \<Rightarrow> Inr v)"

text \<open>The level that \<open>setLevel(getattr(logging, name))\<close> sets, or what it raises.\<close>

definition level_by_name :: "world \<Rightarrow> string \<Rightarrow> error + int" where
  "level_by_name w s = (case getattr_logging w s of Inl e \<Rightarrow> Inl e | Inr v \<Rightarrow> checkLevel v)"

section \<open>Configuration and setup\<close>

record LoggingConfig =
  log_dir :: path
  enable_interaction_logging :: bool
  interaction_log_level :: string
  enable_agent_logging :: bool
  agent_log_level :: string
  enable_workflow_logging :: bool
  workflow_log_level :: string
  enable_tool_logging :: bool
  tool_log_level :: string
  system_log_level :: string
  max_log_files :: int
  enable_performance_logging :: bool
  enable_security_logging :: bool

text \<open>The defaults of the dataclass.\<close>

definition default_config :: LoggingConfig where
  "default_config =
     \<lparr>log_dir = [''logs''],
      enable_interaction_logging = True, interaction_log_level = ''INFO'',
      enable_agent_logging = True, agent_log_level = ''INFO'',
      enable_workflow_logging = True, workflow_log_level = ''INFO'',
      enable_tool_logging = True, tool_log_level = ''INFO'',
      system_log_level = ''INFO'', max_log_files = 30,
      enable_performance_logging = True, enable_security_logging = True\<rparr>"

text \<open>A sequence of statements: the first exception ends it, and what was done stays.\<close>

fun run_steps :: "(world \<Rightarrow> error option \<times> world) list \<Rightarrow> world \<Rightarrow> error option \<times> world" where
  "run_steps [] w = (None, w)"
| "run_steps (s # ss) w = (case s w of (Some e, w') \<Rightarrow> (Some e, w') | (None, w') \<Rightarrow> run_steps ss w')"

text \<open>\<open>p.mkdir(exist_ok=True)\<close> at time \<open>t\<close>\<close>

definition mkdir_step :: "path \<Rightarrow> nat \<Rightarrow> world \<Rightarrow> error option \<times> world" where
  "mkdir_step p t w =
     (case mkdir (fsys w) p t of Inl e \<Rightarrow> (Some e, w) | Inr fs' \<Rightarrow> (None, w\<lparr>fsys := fs'\<rparr>))"

text \<open>
  The root logger's part of \<open>setup_logging\<close>: its level, its old handlers removed, the
  system handler and the console handler added.
\<close>

definition setup_root_logger :: "LoggingConfig \<Rightarrow> datetime \<Rightarrow> world \<Rightarrow> error option \<times> world" where
  "setup_root_logger config now w =
     (case level_by_name w (system_log_level config) of
        Inl e \<Rightarrow> (Some e, w)
      | Inr lvl \<Rightarrow>
          (let w = set_logger ''root'' ((get_logger w ''root'')\<lparr>logger_level := lvl, handlers := []\<rparr>) w
           in case DateRotatingFileHandler_init
                     \<lparr>parent = log_dir config @ [''system''], stem = ''system'', suffix = ''.log''\<rparr>
                     (max_log_files config) now (fsys w) of
                (Inl e, fs') \<Rightarrow> (Some e, w\<lparr>fsys := fs'\<rparr>)
              | (Inr system_handler, fs') \<Rightarrow>
                  (let system_handler = system_handler\<lparr>formatter := StructuredFormatter\<rparr>;
                       system_handler = system_handler\<lparr>level := lvl\<rparr>;
                       console_handler = ConsoleH WARNING ConsoleFormatter;
                       root_logger = get_logger w ''root''
                   in (None,
                       set_logger ''root''
                         (root_logger\<lparr>handlers := [FileH system_handler, console_handler]\<rparr>)
                         (w\<lparr>fsys := fs'\<rparr>)))))"

text \<open>
  What each \<open>_setup_..._logger\<close> does once its channel is enabled: get the logger
  \<open>deer_flow.\<close>\<open>channel\<close>, set its level (\<open>lvl\<close> is the level, or what getting and setting
  it raises), clear \<open>propagate\<close>, create the handler on \<open>log_dir/channel/channel.log\<close>, set
  its formatter and add it to the logger.
\<close>

definition configure_channel ::
  "string \<Rightarrow> error + int \<Rightarrow> formatter \<Rightarrow> LoggingConfig \<Rightarrow> datetime \<Rightarrow> world \<Rightarrow> error option \<times> world" where
  "configure_channel channel lvl fmt config now w =
     (let n = ''deer_flow.'' @ channel;
          w = getLogger n w
      in case lvl of
           Inl e \<Rightarrow> (Some e, w)
         | Inr l \<Rightarrow>
             (let w = set_logger n ((get_logger w n)\<lparr>logger_level := l\<rparr>) w;
                  w = set_logger n ((get_logger w n)\<lparr>propagate := False\<rparr>) w
              in case DateRotatingFileHandler_init
                        \<lparr>parent = log_dir config @ [channel], stem = channel, suffix = ''.log''\<rparr>
                        (max_log_files config) now (fsys w) of
                   (Inl e, fs') \<Rightarrow> (Some e, w\<lparr>fsys := fs'\<rparr>)
                 | (Inr h, fs') \<Rightarrow>
                     (let h = h\<lparr>formatter := fmt\<rparr>;
                          logger = get_logger w n
                      in (None,
                          set_logger n (logger\<lparr>handlers := handlers logger @ [FileH h]\<rparr>)
                            (w\<lparr>fsys := fs'\<rparr>)))))"

definition setup_interaction_logger :: "LoggingConfig \<Rightarrow> datetime \<Rightarrow> world \<Rightarrow> error option \<times> world" where
  "setup_interaction_logger config now w =
     (if \<not> enable_interaction_logging config then (None, w)
      else configure_channel ''interactions'' (level_by_name w (interaction_log_level config))
             InteractionFormatter config now w)"

definition setup_agent_logger :: "LoggingConfig \<Rightarrow> datetime \<Rightarrow> world \<Rightarrow> error option \<times> world" where
  "setup_agent_logger config now w =
     (if \<not> enable_agent_logging config then (None, w)
      else configure_channel ''agents'' (level_by_name w (agent_log_level config))
             StructuredFormatter config now w)"

definition setup_workflow_logger :: "LoggingConfig \<Rightarrow> datetime \<Rightarrow> world \<Rightarrow> error option \<times> world" where
  "setup_workflow_logger config now w =
     (if \<not> enable_workflow_logging config then (None, w)
      else configure_channel ''workflows'' (level_by_name w (workflow_log_level config))
             StructuredFormatter config now w)"

definition setup_tool_logger :: "LoggingConfig \<Rightarrow> datetime \<Rightarrow> world \<Rightarrow> error option \<times> world" where
  "setup_tool_logger config now w =
     (if \<not> enable_tool_logging config then (None, w)
      else configure_channel ''tools'' (level_by_name w (tool_log_level config))
             StructuredFormatter config now w)"

definition setup_performance_logger :: "LoggingConfig \<Rightarrow> datetime \<Rightarrow> world \<Rightarrow> error option \<times> world" where
  "setup_performance_logger config now w =
     (if \<not> enable_performance_logging config then (None, w)
      else configure_channel ''performance'' (Inr INFO) StructuredFormatter config now w)"

definition setup_security_logger :: "LoggingConfig \<Rightarrow> datetime \<Rightarrow> world \<Rightarrow> error option \<times> world" where
  "setup_security_logger config now w =
     (if \<not> enable_security_logging config then (None, w)
      else configure_channel ''security'' (Inr INFO) StructuredFormatter config now w)"

text \<open>\<open>setup_logging(config)\<close>, at clock reading \<open>now\<close>.\<close>

definition setup_logging :: "LoggingConfig \<Rightarrow> datetime \<Rightarrow> world \<Rightarrow> error option \<times> world" where
  "setup_logging config now w =
     run_steps
       [mkdir_step (log_dir config) (stamp now),
        mkdir_step (log_dir config @ [''interactions'']) (stamp now),
        mkdir_step (log_dir config @ [''agents'']) (stamp now),
        mkdir_step (log_dir config @ [''workflows'']) (stamp now),
        mkdir_step (log_dir config @ [''tools'']) (stamp now),
        mkdir_step (log_dir config @ [''system'']) (stamp now),
        mkdir_step (log_dir config @ [''performance'']) (stamp now),
        mkdir_step (log_dir config @ [''security'']) (stamp now),
        setup_root_logger config now,
        setup_interaction_logger config now,
        setup_agent_logger config now,
        setup_workflow_logger config now,
        setup_tool_logger config now,
        setup_performance_logger config now,
        setup_security_logger config now] w"

section \<open>The interaction logger\<close>

record InteractionEvent =
  ie_event_id :: string
  ie_session_id :: string
  ie_timestamp :: string
  ie_event_type :: string
  ie_user_input :: "string option"
  ie_agent_response :: "string option"
  ie_agent_name :: "string option"
  ie_tool_name :: "string option"
  ie_tool_input :: "pydict option"
  ie_tool_output :: "string option"
  ie_duration_ms :: "string option"
  ie_metadata :: "pydict option"
  ie_error :: "string option"

record WorkflowEvent =
  wf_event_id :: string
  wf_session_id :: string
  wf_timestamp :: string
  wf_workflow_type :: string
  wf_node_name :: string
  wf_status :: string
  wf_input_data :: "pydict option"
  wf_output_data :: "pydict option"
  wf_duration_ms :: "string option"
  wf_error :: "string option"

record AgentActivity =
  aa_event_id :: string
  aa_session_id :: string
  aa_timestamp :: string
  aa_agent_name :: string
  aa_activity_type :: string
  aa_llm_model :: "string option"
  aa_prompt_tokens :: "int option"
  aa_completion_tokens :: "int option"
  aa_total_tokens :: "int option"
  aa_duration_ms :: "string option"
  aa_input_data :: "string option"
  aa_output_data :: "string option"
  aa_metadata :: "pydict option"

record ToolUsage =
  tu_event_id :: string
  tu_session_id :: string
  tu_timestamp :: string
  tu_tool_name :: string
  tu_agent_name :: "string option"
  tu_input_parameters :: "pydict option"
  tu_output_result :: "string option"
  tu_duration_ms :: "string option"
  tu_success :: bool
  tu_error :: "string option"

text \<open>\<open>dataclasses.asdict\<close>, the fields in the order of their declaration.\<close>

definition asdict_InteractionEvent :: "InteractionEvent \<Rightarrow> pydict" where
  "asdict_InteractionEvent e =
     [(''event_id'', PStr (ie_event_id e)),
      (''session_id'', PStr (ie_session_id e)),
      (''timestamp'', PStr (ie_timestamp e)),
      (''event_type'', PStr (ie_event_type e)),
      (''user_input'', opt_str (ie_user_input e)),
      (''agent_response'', opt_str (ie_agent_response e)),
      (''agent_name'', opt_str (ie_agent_name e)),
      (''tool_name'', opt_str (ie_tool_name e)),
      (''tool_input'', opt_dict (ie_tool_input e)),
      (''tool_output'', opt_str (ie_tool_output e)),
      (''duration_ms'', opt_float (ie_duration_ms e)),
      (''metadata'', opt_dict (ie_metadata e)),
      (''error'', opt_str (ie_error e))]"

definition asdict_WorkflowEvent :: "WorkflowEvent \<Rightarrow> pydict" where
  "asdict_WorkflowEvent e =
     [(''event_id'', PStr (wf_event_id e)),
      (''session_id'', PStr (wf_session_id e)),
      (''timestamp'', PStr (wf_timestamp e)),
      (''workflow_type'', PStr (wf_workflow_type e)),
      (''node_name'', PStr (wf_node_name e)),
      (''status'', PStr (wf_status e)),
      (''input_data'', opt_dict (wf_input_data e)),
      (''output_data'', opt_dict (wf_output_data e)),
      (''duration_ms'', opt_float (wf_duration_ms e)),
      (''error'', opt_str (wf_error e))]"

definition asdict_AgentActivity :: "AgentActivity \<Rightarrow> pydict" where
  "asdict_AgentActivity a =
     [(''event_id'', PStr (aa_event_id a)),
      (''session_id'', PStr (aa_session_id a)),
      (''timestamp'', PStr (aa_timestamp a)),
      (''agent_name'', PStr (aa_agent_name a)),
      (''activity_type'', PStr (aa_activity_type a)),
      (''llm_model'', opt_str (aa_llm_model a)),
      (''prompt_tokens'', opt_int (aa_prompt_tokens a)),
      (''completion_tokens'', opt_int (aa_completion_tokens a)),
      (''total_tokens'', opt_int (aa_total_tokens a)),
      (''duration_ms'', opt_float (aa_duration_ms a)),
      (''input_data'', opt_str (aa_input_data a)),
      (''output_data'', opt_str (aa_output_data a)),
      (''metadata'', opt_dict (aa_metadata a))]"

definition asdict_ToolUsage :: "ToolUsage \<Rightarrow> pydict" where
  "asdict_ToolUsage u =
     [(''event_id'', PStr (tu_event_id u)),
      (''session_id'', PStr (tu_session_id u)),
      (''timestamp'', PStr (tu_timestamp u)),
      (''tool_name'', PStr (tu_tool_name u)),
      (''agent_name'', opt_str (tu_agent_name u)),
      (''input_parameters'', opt_dict (tu_input_parameters u)),
      (''output_result'', opt_str (tu_output_result u)),
      (''duration_ms'', opt_float (tu_duration_ms u)),
      (''success'', PBool (tu_success u)),
      (''error'', opt_str (tu_error u))]"

text \<open>The names of the six channel loggers, in the order \<open>__init__\<close> gets them.\<close>

definition channel_loggers :: "string list" where
  "channel_loggers =
     [''deer_flow.interactions'', ''deer_flow.agents'', ''deer_flow.workflows'',
      ''deer_flow.tools'', ''deer_flow.performance'', ''deer_flow.security'']"

text \<open>
  \<open>InteractionLogger(session_id)\<close>: \<open>session_id or str(uuid.uuid4())\<close> draws an
  identifier when the argument is \<open>None\<close> or empty.
\<close>

definition InteractionLogger_init :: "string option \<Rightarrow> world \<Rightarrow> InteractionLogger \<times> world" where
  "InteractionLogger_init sid w =
     (case (case sid of
              None \<Rightarrow> uuid4 w
            | Some s \<Rightarrow> if s \<noteq> [] then (s, w) else uuid4 w) of
        (sid', w) \<Rightarrow>
          (let w = fold getLogger channel_loggers w
           in (\<lparr>obj_id = next_obj w, session_id = sid'\<rparr>, w\<lparr>next_obj := Suc (next_obj w)\<rparr>)))"

text \<open>
  The result of a logging call whose handlers returned \<open>e\<close>: the exception of a handler
  goes to the caller, otherwise the call returns \<open>v\<close>.
\<close>

definition returning :: "pyval \<Rightarrow> error option \<times> world \<Rightarrow> (error + pyval) \<times> world" where
  "returning v r = (case r of (None, w) \<Rightarrow> (Inr v, w) | (Some e, w) \<Rightarrow> (Inl e, w))"

text \<open>
  The record that \<open>log_interaction\<close> makes with \<open>logging.LogRecord(...)\<close> and the
  attributes it sets on it, for the event identifier \<open>event_id\<close>.
\<close>

definition interaction_record ::
  "InteractionLogger \<Rightarrow> string \<Rightarrow> string option \<Rightarrow> string option \<Rightarrow> string option
     \<Rightarrow> string option \<Rightarrow> pydict option \<Rightarrow> string option \<Rightarrow> string \<Rightarrow> datetime \<Rightarrow> world
     \<Rightarrow> LogRecord" where
  "interaction_record self event_type user_input agent_response agent_name duration_ms metadata
       err event_id now w =
     (let event =
            \<lparr>ie_event_id = event_id, ie_session_id = session_id self,
             ie_timestamp = isoformat now, ie_event_type = event_type,
             ie_user_input = user_input, ie_agent_response = agent_response,
             ie_agent_name = agent_name, ie_tool_name = None, ie_tool_input = None,
             ie_tool_output = None, ie_duration_ms = duration_ms,
             ie_metadata = Some (dict_or_empty metadata), ie_error = err\<rparr>
      in \<lparr>name = ''deer_flow.interactions'', levelno = INFO, msg = [], created = now,
          module = [], funcName = PNone, lineno = 0, exc_info = None, taskName = task_name w,
          attrs = [(''session_id'', PStr (session_id self)),
                   (''interaction_type'', PStr event_type),
                   (''interaction_data'', PDict (asdict_InteractionEvent event)),
                   (''duration'', opt_float duration_ms),
                   (''agent_name'', opt_str agent_name)]\<rparr>)"

definition InteractionLogger_log_interaction ::
  "InteractionLogger \<Rightarrow> string \<Rightarrow> string option \<Rightarrow> string option \<Rightarrow> string option
     \<Rightarrow> string option \<Rightarrow> pydict option \<Rightarrow> string option \<Rightarrow> datetime \<Rightarrow> world
     \<Rightarrow> (error + pyval) \<times> world" where
  "InteractionLogger_log_interaction self event_type user_input agent_response agent_name
       duration_ms metadata err now w =
     (case uuid4 w of
        (event_id, w) \<Rightarrow>
          (let record = interaction_record self event_type user_input agent_response agent_name
                          duration_ms metadata err event_id now w
           in returning (PStr event_id) (Logger_handle ''deer_flow.interactions'' now record w)))"

text \<open>\<open>x or 0\<close> and the truth value of an optional integer.\<close>

definition or_zero :: "int option \<Rightarrow> int" where
  "or_zero x = (case x of None \<Rightarrow> 0 | Some i \<Rightarrow> if i \<noteq> 0 then i else 0)"

definition truthy_int :: "int option \<Rightarrow> bool" where
  "truthy_int x = (case x of None \<Rightarrow> False | Some i \<Rightarrow> i \<noteq> 0)"

text \<open>
  \<open>(prompt_tokens or 0) + (completion_tokens or 0) if prompt_tokens and completion_tokens
  else None\<close>
\<close>

definition token_total :: "int option \<Rightarrow> int option \<Rightarrow> int option" where
  "token_total prompt_tokens completion_tokens =
     (if truthy_int prompt_tokens \<and> truthy_int completion_tokens
      then Some (or_zero prompt_tokens + or_zero completion_tokens) else None)"

text \<open>The \<open>AgentActivity\<close> that \<open>log_agent_activity\<close> constructs.\<close>

definition make_AgentActivity ::
  "string \<Rightarrow> string \<Rightarrow> string \<Rightarrow> string \<Rightarrow> string \<Rightarrow> string option \<Rightarrow> int option \<Rightarrow> int option
     \<Rightarrow> string option \<Rightarrow> string option \<Rightarrow> string option \<Rightarrow> pydict option \<Rightarrow> AgentActivity" where
  "make_AgentActivity event_id sid ts agent_name activity_type llm_model prompt_tokens
       completion_tokens duration_ms input_data output_data metadata =
     \<lparr>aa_event_id = event_id, aa_session_id = sid, aa_timestamp = ts,
      aa_agent_name = agent_name, aa_activity_type = activity_type, aa_llm_model = llm_model,
      aa_prompt_tokens = prompt_tokens, aa_completion_tokens = completion_tokens,
      aa_total_tokens = token_total prompt_tokens completion_tokens,
      aa_duration_ms = duration_ms, aa_input_data = input_data, aa_output_data = output_data,
      aa_metadata = Some (dict_or_empty metadata)\<rparr>"

text \<open>The record that \<open>log_agent_activity\<close> makes.\<close>

definition agent_record ::
  "InteractionLogger \<Rightarrow> string \<Rightarrow> string \<Rightarrow> string option \<Rightarrow> int option \<Rightarrow> int option
     \<Rightarrow> string option \<Rightarrow> string option \<Rightarrow> string option \<Rightarrow> pydict option \<Rightarrow> string
     \<Rightarrow> datetime \<Rightarrow> world \<Rightarrow> LogRecord" where
  "agent_record self agent_name activity_type llm_model prompt_tokens completion_tokens
       duration_ms input_data output_data metadata event_id now w =
     (let activity =
            make_AgentActivity event_id (session_id self) (isoformat now) agent_name
              activity_type llm_model prompt_tokens completion_tokens duration_ms input_data
              output_data metadata
      in \<lparr>name = ''deer_flow.agents'', levelno = INFO,
          msg = ''Agent '' @ agent_name @ '' performed '' @ activity_type, created = now,
          module = [], funcName = PNone, lineno = 0, exc_info = None, taskName = task_name w,
          attrs = [(''session_id'', PStr (session_id self)),
                   (''agent_name'', PStr agent_name),
                   (''action'', PStr activity_type),
                   (''agent_data'', PDict (asdict_AgentActivity activity)),
                   (''llm_model'', opt_str llm_model),
                   (''tokens_used'', opt_int (token_total prompt_tokens completion_tokens))]\<rparr>)"

definition InteractionLogger_log_agent_activity ::
  "InteractionLogger \<Rightarrow> string \<Rightarrow> string \<Rightarrow> string option \<Rightarrow> int option \<Rightarrow> int option
     \<Rightarrow> string option \<Rightarrow> string option \<Rightarrow> string option \<Rightarrow> pydict option \<Rightarrow> datetime \<Rightarrow> world
     \<Rightarrow> (error + pyval) \<times> world" where
  "InteractionLogger_log_agent_activity self agent_name activity_type llm_model prompt_tokens
       completion_tokens duration_ms input_data output_data metadata now w =
     (case uuid4 w of
        (event_id, w) \<Rightarrow>
          (let record = agent_record self agent_name activity_type llm_model prompt_tokens
                          completion_tokens duration_ms input_data output_data metadata event_id
                          now w
           in returning (PStr event_id) (Logger_handle ''deer_flow.agents'' now record w)))"

text \<open>\<open>x or dflt\<close> for an optional string: \<open>None\<close> and the empty string are falsy.\<close>

definition str_or :: "string option \<Rightarrow> string \<Rightarrow> string" where
  "str_or x dflt = (case x of None \<Rightarrow> dflt | Some s \<Rightarrow> if s \<noteq> [] then s else dflt)"

text \<open>The level, the message and the \<open>extra\<close> that \<open>log_workflow_event\<close> logs with.\<close>

definition workflow_level :: "string \<Rightarrow> int" where
  "workflow_level status = (if status = ''error'' then ERROR else INFO)"

definition workflow_message :: "string \<Rightarrow> string \<Rightarrow> string \<Rightarrow> string option \<Rightarrow> string" where
  "workflow_message workflow_type node_name status err =
     (let message = ''Workflow '' @ workflow_type @ ''.'' @ node_name @ '': '' @ status
      in case err of
           None \<Rightarrow> message
         | Some e \<Rightarrow> if e \<noteq> [] then message @ '' - '' @ e else message)"

definition workflow_extra ::
  "InteractionLogger \<Rightarrow> string \<Rightarrow> string \<Rightarrow> string \<Rightarrow> pydict option \<Rightarrow> pydict option
     \<Rightarrow> string option \<Rightarrow> string option \<Rightarrow> string \<Rightarrow> datetime \<Rightarrow> pydict" where
  "workflow_extra self workflow_type node_name status input_data output_data duration_ms err
       event_id now =
     (let event =
            \<lparr>wf_event_id = event_id, wf_session_id = session_id self,
             wf_timestamp = isoformat now, wf_workflow_type = workflow_type,
             wf_node_name = node_name, wf_status = status, wf_input_data = input_data,
             wf_output_data = output_data, wf_duration_ms = duration_ms, wf_error = err\<rparr>
      in [(''session_id'', PStr (session_id self)),
          (''workflow_event'', PDict (asdict_WorkflowEvent event))])"

definition InteractionLogger_log_workflow_event ::
  "InteractionLogger \<Rightarrow> string \<Rightarrow> string \<Rightarrow> string \<Rightarrow> pydict option \<Rightarrow> pydict option
     \<Rightarrow> string option \<Rightarrow> string option \<Rightarrow> datetime \<Rightarrow> world \<Rightarrow> (error + pyval) \<times> world" where
  "InteractionLogger_log_workflow_event self workflow_type node_name status input_data
       output_data duration_ms err now w =
     (case uuid4 w of
        (event_id, w) \<Rightarrow>
          returning (PStr event_id)
            (Logger_log ''deer_flow.workflows'' (workflow_level status)
               (workflow_message workflow_type node_name status err)
               (workflow_extra self workflow_type node_name status input_data output_data
                  duration_ms err event_id now)
               ''log_workflow_event'' 226 now w))"

text \<open>The record that \<open>log_tool_usage\<close> makes.\<close>

definition tool_record ::
  "InteractionLogger \<Rightarrow> string \<Rightarrow> pydict option \<Rightarrow> string option \<Rightarrow> string option
     \<Rightarrow> string option \<Rightarrow> bool \<Rightarrow> string option \<Rightarrow> string \<Rightarrow> datetime \<Rightarrow> world \<Rightarrow> LogRecord" where
  "tool_record self tool_name input_parameters output_result agent_name duration_ms success err
       event_id now w =
     (let usage =
            \<lparr>tu_event_id = event_id, tu_session_id = session_id self,
             tu_timestamp = isoformat now, tu_tool_name = tool_name,
             tu_agent_name = agent_name, tu_input_parameters = input_parameters,
             tu_output_result = output_result, tu_duration_ms = duration_ms,
             tu_success = success, tu_error = err\<rparr>;
          lvl = (if \<not> success then ERROR else INFO);
          message = ''Tool '' @ tool_name @ '' used by '' @ str_or agent_name ''unknown'';
          message = (case err of
                       None \<Rightarrow> message
                     | Some e \<Rightarrow> if e \<noteq> [] then message @ '' - Error: '' @ e else message)
      in \<lparr>name = ''deer_flow.tools'', levelno = lvl, msg = message, created = now,
          module = [], funcName = PNone, lineno = 0, exc_info = None, taskName = task_name w,
          attrs = [(''session_id'', PStr (session_id self)),
                   (''tool_name'', PStr tool_name),
                   (''agent_name'', opt_str agent_name),
                   (''tool_data'', PDict (asdict_ToolUsage usage))]\<rparr>)"

definition InteractionLogger_log_tool_usage ::
  "InteractionLogger \<Rightarrow> string \<Rightarrow> pydict option \<Rightarrow> string option \<Rightarrow> string option
     \<Rightarrow> string option \<Rightarrow> bool \<Rightarrow> string option \<Rightarrow> datetime \<Rightarrow> world \<Rightarrow> (error + pyval) \<times> world" where
  "InteractionLogger_log_tool_usage self tool_name input_parameters output_result agent_name
       duration_ms success err now w =
     (case uuid4 w of
        (event_id, w) \<Rightarrow>
          (let record = tool_record self tool_name input_parameters output_result agent_name
                          duration_ms success err event_id now w
           in returning (PStr event_id) (Logger_handle ''deer_flow.tools'' now record w)))"

text \<open>A metric value, \<open>Union[float, int]\<close>, and its \<open>str\<close>.\<close>

datatype number = NInt int | NFloat string

definition number_val :: "number \<Rightarrow> pyval" where
  "number_val v = (case v of NInt i \<Rightarrow> PInt i | NFloat r \<Rightarrow> PFloat r)"

definition number_str :: "number \<Rightarrow> string" where
  "number_str v = (case v of NInt i \<Rightarrow> show_int i | NFloat r \<Rightarrow> r)"

definition InteractionLogger_log_performance_metric ::
  "InteractionLogger \<Rightarrow> string \<Rightarrow> number \<Rightarrow> string \<Rightarrow> pydict option \<Rightarrow> datetime \<Rightarrow> world
     \<Rightarrow> (error + pyval) \<times> world" where
  "InteractionLogger_log_performance_metric self metric_name v unit metadata now w =
     returning PNone
       (Logger_log ''deer_flow.performance'' INFO
          (''Performance metric '' @ metric_name @ '': '' @ number_str v @ unit)
          [(''session_id'', PStr (session_id self)),
           (''metric_name'', PStr metric_name),
           (''value'', number_val v),
           (''unit'', PStr unit),
           (''metadata'', PDict (dict_or_empty metadata))]
          ''log_performance_metric'' 287 now w)"

text \<open>
  \<open>str.upper\<close> on a string in UTF-8.  The letters \<open>a\<close> to \<open>z\<close> go to \<open>A\<close> to \<open>Z\<close>, and
  the characters whose upper case is written in ASCII go to it: U+00DF to \<open>SS\<close>, U+0131
  to \<open>I\<close>, U+017F to \<open>S\<close>, and the ligatures U+FB00 to U+FB06.  The upper case of every
  other character outside ASCII is outside ASCII; its bytes are left as they are.
\<close>

definition upper_char :: "char \<Rightarrow> char" where
  "upper_char c =
     (if (97::nat) \<le> of_char c \<and> (of_char c :: nat) \<le> 122 then char_of (of_char c - (32::nat)) else c)"

definition upper_ligature :: "char \<Rightarrow> string" where
  "upper_ligature c =
     (if c = CHR 0x80 then ''FF'' else if c = CHR 0x81 then ''FI'' else if c = CHR 0x82 then ''FL''
      else if c = CHR 0x83 then ''FFI'' else if c = CHR 0x84 then ''FFL'' else ''ST'')"

fun upper :: "string \<Rightarrow> string" where
  "upper (a # b # c # cs) =
     (if a = CHR 0xEF \<and> b = CHR 0xAC \<and> (128::nat) \<le> of_char c \<and> (of_char c :: nat) \<le> 134
        then upper_ligature c @ upper cs
      else if a = CHR 0xC3 \<and> b = CHR 0x9F then ''SS'' @ upper (c # cs)
      else if a = CHR 0xC4 \<and> b = CHR 0xB1 then ''I'' @ upper (c # cs)
      else if a = CHR 0xC5 \<and> b = CHR 0xBF then ''S'' @ upper (c # cs)
      else upper_char a # upper (b # c # cs))"
| "upper [a, b] =
     (if a = CHR 0xC3 \<and> b = CHR 0x9F then ''SS''
      else if a = CHR 0xC4 \<and> b = CHR 0xB1 then ''I''
      else if a = CHR 0xC5 \<and> b = CHR 0xBF then ''S''
      else [upper_char a, upper_char b])"
| "upper [a] = [upper_char a]"
| "upper [] = []"

text \<open>\<open>getattr(logging, name, dflt)\<close>\<close>

definition getattr_logging_default :: "world \<Rightarrow> string \<Rightarrow> pyval \<Rightarrow> pyval" where
  "getattr_logging_default w s dflt = (case getattr_logging w s of Inl e \<Rightarrow> dflt | Inr v \<Rightarrow> v)"

text \<open>
  \<open>Logger.log(level, msg, extra=extra)\<close> for any value \<open>level\<close>: one that is not an
  integer raises \<open>TypeError\<close> (\<open>logging.raiseExceptions\<close> is set).
\<close>

definition Logger_log_value ::
  "string \<Rightarrow> pyval \<Rightarrow> string \<Rightarrow> pydict \<Rightarrow> string \<Rightarrow> int \<Rightarrow> datetime \<Rightarrow> world \<Rightarrow> error option \<times> world" where
  "Logger_log_value n lvl message extra func line now w =
     (case lvl of
        PInt i \<Rightarrow> Logger_log n i message extra func line now w
      | PBool b \<Rightarrow> Logger_log n (if b then 1 else 0) message extra func line now w
      | v \<Rightarrow> (Some TypeError, w))"

definition InteractionLogger_log_security_event ::
  "InteractionLogger \<Rightarrow> string \<Rightarrow> string \<Rightarrow> string \<Rightarrow> string option \<Rightarrow> string option
     \<Rightarrow> pydict option \<Rightarrow> datetime \<Rightarrow> world \<Rightarrow> (error + pyval) \<times> world" where
  "InteractionLogger_log_security_event self event_type description severity user_id ip_address
       metadata now w =
     (let lvl = getattr_logging_default w (upper severity) (PInt INFO)
      in returning PNone
           (Logger_log_value ''deer_flow.security'' lvl
              (''Security event '' @ event_type @ '': '' @ description)
              [(''session_id'', PStr (session_id self)),
               (''event_type'', PStr event_type),
               (''user_id'', opt_str user_id),
               (''ip_address'', opt_str ip_address),
               (''metadata'', PDict (dict_or_empty metadata))]
              ''log_security_event'' 309 now w))"

section \<open>The global logger and the convenience functions\<close>

text \<open>\<open>_global_logger = InteractionLogger(session_id)\<close>\<close>

definition new_global_logger :: "string option \<Rightarrow> world \<Rightarrow> InteractionLogger \<times> world" where
  "new_global_logger sid w =
     (case InteractionLogger_init sid w of (l, w) \<Rightarrow> (l, w\<lparr>global_logger := Some l\<rparr>))"

text \<open>
  \<open>get_interaction_logger(session_id)\<close>.  The condition
  \<open>_global_logger is None or (session_id and _global_logger.session_id != session_id)\<close>
  reads the truth value of \<open>session_id\<close>: \<open>None\<close> and the empty string are falsy.
\<close>

definition get_interaction_logger :: "string option \<Rightarrow> world \<Rightarrow> InteractionLogger \<times> world" where
  "get_interaction_logger sid w =
     (case global_logger w of
        None \<Rightarrow> new_global_logger sid w
      | Some g \<Rightarrow>
          (case sid of
             None \<Rightarrow> (g, w)
           | Some s \<Rightarrow> if s \<noteq> [] \<and> session_id g \<noteq> s then new_global_logger sid w else (g, w)))"

definition log_interaction ::
  "string \<Rightarrow> string option \<Rightarrow> string option \<Rightarrow> string option \<Rightarrow> string option \<Rightarrow> pydict option
     \<Rightarrow> string option \<Rightarrow> string option \<Rightarrow> datetime \<Rightarrow> world \<Rightarrow> (error + pyval) \<times> world" where
  "log_interaction event_type user_input agent_response agent_name duration_ms metadata err sid
       now w =
     (case get_interaction_logger sid w of
        (logger, w) \<Rightarrow>
          InteractionLogger_log_interaction logger event_type user_input agent_response agent_name
            duration_ms metadata err now w)"

section \<open>Example inputs\<close>

definition example_date :: date where
  "example_date = \<lparr>year = 2025, month = 1, day = 1\<rparr>"

definition example_base :: base_path where
  "example_base = \<lparr>parent = [''logs'', ''app''], stem = ''app'', suffix = ''.log''\<rparr>"

text \<open>A handler created on 2025-01-01 for \<open>logs/app/app.log\<close> with \<open>max_files = n\<close>.\<close>

definition example_handler :: "int \<Rightarrow> DateRotatingFileHandler" where
  "example_handler n =
     \<lparr>base_filename = example_base, max_files = n, current_date = example_date,
      baseFilename = [''logs'', ''app'', ''app_2025-01-01.log''],
      stream = Some [''logs'', ''app'', ''app_2025-01-01.log''],
      level = NOTSET, formatter = DefaultFormatter\<rparr>"

text \<open>Its directory, holding yesterday's file and today's, which the handler has open.\<close>

definition example_fs :: filesystem where
  "example_fs =
     \<lparr>dirs = [([''logs''], 5), ([''logs'', ''app''], 9)], readonly = [], full = False,
      fnmatch = simple_fnmatch, opened = [[''logs'', ''app'', ''app_2025-01-01.log'']],
      files = [([''logs'', ''app'', ''app_2024-12-31.log''], \<lparr>content = [''x''], mtime = 5\<rparr>),
               ([''logs'', ''app'', ''app_2025-01-01.log''], \<lparr>content = [''y''], mtime = 9\<rparr>)]\<rparr>"


text \<open>Noon of day \<open>n\<close> of January 2025; the time line counts one unit per day.\<close>

definition example_clock :: "nat \<Rightarrow> datetime" where
  "example_clock n =
     \<lparr>dt_date = \<lparr>year = 2025, month = 1, day = n\<rparr>, hour = 12, minute = 0, second = 0,
      microsecond = 0, msecs = 0, stamp = 10 + n\<rparr>"

definition example_record :: LogRecord where
  "example_record =
     \<lparr>name = ''app'', levelno = INFO, msg = ''hello'', created = example_clock 1, module = [],
      funcName = PNone, lineno = 0, exc_info = None, taskName = Some PNone, attrs = []\<rparr>"

definition example_empty_fs :: filesystem where
  "example_empty_fs =
     \<lparr>dirs = [], readonly = [], full = False, fnmatch = simple_fnmatch, opened = [], files = []\<rparr>"

text \<open>One append at each of the clock readings, in order, until one raises.\<close>

fun emit_each ::
  "DateRotatingFileHandler \<Rightarrow> datetime list \<Rightarrow> LogRecord \<Rightarrow> filesystem
     \<Rightarrow> error option \<times> DateRotatingFileHandler \<times> filesystem" where
  "emit_each h [] r fs = (None, h, fs)"
| "emit_each h (now # ts) r fs =
     (case emit h now r fs of
        (Some e, h', fs') \<Rightarrow> (Some e, h', fs')
      | (None, h', fs') \<Rightarrow> emit_each h' ts r fs')"

text \<open>
  The files left when a handler with \<open>max_files = n\<close> is created for \<open>logs/app/app.log\<close>
  on day 1 in an empty file system and one record is appended on each of the days
  \<open>1, ..., k\<close>.
\<close>

definition files_after_days :: "int \<Rightarrow> nat \<Rightarrow> path list" where
  "files_after_days n k =
     (case DateRotatingFileHandler_init example_base n (example_clock 1) example_empty_fs of
        (Inl e, fs) \<Rightarrow> map fst (files fs)
      | (Inr h, fs) \<Rightarrow>
          map fst (files (snd (snd (emit_each h (map example_clock [1..<Suc k]) example_record fs)))))"

text \<open>
  The module \<open>logging\<close> as far as the examples read it: the level names, and
  \<open>BASIC_FORMAT\<close>, a string.
\<close>

definition example_logging_module :: "string \<Rightarrow> pyval option" where
  "example_logging_module s =
     (if s = ''BASIC_FORMAT'' then Some (PStr ''%(levelname)s:%(name)s:%(message)s'')
      else if s = ''info'' then Some (PObject ''function'')
      else map_option PInt (nameToLevel s))"

text \<open>
  A process that has just started: an empty file system, no logger configured, no
  asyncio task running, and \<open>uuid4\<close> returning \<open>uuid-0\<close>, \<open>uuid-1\<close>, ... .
\<close>

definition example_uuids :: "nat \<Rightarrow> string" where
  "example_uuids n = ''uuid-'' @ show_nat n"

definition initial_world :: world where
  "initial_world =
     \<lparr>fsys = example_empty_fs, stderr = [], loggers = [], logging_module = example_logging_module,
      task_name = Some PNone, uuids = example_uuids, uuid_count = 0, next_obj = 0,
      global_logger = None\<rparr>"

text \<open>The same process after \<open>setup_logging(LoggingConfig())\<close> on 2025-01-01.\<close>

definition example_world :: world where
  "example_world = snd (setup_logging default_config (example_clock 1) initial_world)"

definition example_logger :: InteractionLogger where
  "example_logger = \<lparr>obj_id = 0, session_id = ''s1''\<rparr>"

text \<open>A process whose global logger was obtained for session \<open>s1\<close>.\<close>

definition session_world :: world where
  "session_world = snd (get_interaction_logger (Some ''s1'') initial_world)"

section \<open>Retention cleanup\<close>

text \<open>
  C3 at \<open>max_files = -1\<close>, in a directory with two dated files: the cleanup removes the
  older one.  The test \<open>len(log_files) <= self.max_files\<close> never holds for a negative
  \<open>max_files\<close>, and the slice \<open>log_files[:-self.max_files]\<close> is then \<open>log_files[:1]\<close>, the
  least recently modified file.
\<close>

theorem cleanup_negative_max_files_deletes_oldest:
  "max_files (example_handler (- 1)) = - 1 \<and>
   map fst (files example_fs) =
     [[''logs'', ''app'', ''app_2024-12-31.log''], [''logs'', ''app'', ''app_2025-01-01.log'']] \<and>
   map fst (files (cleanup_old_files (example_handler (- 1)) 12 example_fs)) =
     [[''logs'', ''app'', ''app_2025-01-01.log'']]"
  by code_simp

section \<open>Token totals\<close>

text \<open>
  C6 at \<open>prompt_tokens = 0\<close>, \<open>completion_tokens = 5\<close>: both counts are supplied, and the
  record has no total, because the condition \<open>prompt_tokens and completion_tokens\<close> reads a
  supplied zero as false.
\<close>

theorem total_tokens_zero_prompt:
  "aa_prompt_tokens
     (make_AgentActivity ''e1'' ''s1'' ''2025-01-01T00:00:00'' ''researcher'' ''search'' None
        (Some 0) (Some 5) None None None None) = Some 0 \<and>
   aa_completion_tokens
     (make_AgentActivity ''e1'' ''s1'' ''2025-01-01T00:00:00'' ''researcher'' ''search'' None
        (Some 0) (Some 5) None None None None) = Some 5 \<and>
   aa_total_tokens
     (make_AgentActivity ''e1'' ''s1'' ''2025-01-01T00:00:00'' ''researcher'' ''search'' None
        (Some 0) (Some 5) None None None None) = None"
  by (simp add: make_AgentActivity_def token_total_def truthy_int_def)

section \<open>Retention across rotations\<close>

text \<open>
  C2 at \<open>max_files = 1\<close>, one record on each of six days: two dated files remain, not one.
  The rotation runs the cleanup before the new day's file is created, so every rotation
  leaves \<open>max_files + 1\<close> files.
\<close>

theorem retention_keeps_one_file_too_many:
  "files_after_days 1 6 =
     [[''logs'', ''app'', ''app_2025-01-05.log''], [''logs'', ''app'', ''app_2025-01-06.log'']]"
  by code_simp

section \<open>The global logger\<close>

lemma set_logger_fields [simp]:
  "uuid_count (set_logger n l w) = uuid_count w"
  "uuids (set_logger n l w) = uuids w"
  "next_obj (set_logger n l w) = next_obj w"
  "global_logger (set_logger n l w) = global_logger w"
  "fsys (set_logger n l w) = fsys w"
  "stderr (set_logger n l w) = stderr w"
  "logging_module (set_logger n l w) = logging_module w"
  "task_name (set_logger n l w) = task_name w"
  by (simp_all add: set_logger_def)

lemma getLogger_fields [simp]:
  "uuid_count (getLogger n w) = uuid_count w"
  "uuids (getLogger n w) = uuids w"
  "next_obj (getLogger n w) = next_obj w"
  "global_logger (getLogger n w) = global_logger w"
  by (simp_all add: getLogger_def)

lemma fold_getLogger_fields [simp]:
  "uuid_count (fold getLogger ns w) = uuid_count w"
  "uuids (fold getLogger ns w) = uuids w"
  "next_obj (fold getLogger ns w) = next_obj w"
  "global_logger (fold getLogger ns w) = global_logger w"
  by (induction ns arbitrary: w) simp_all

lemma InteractionLogger_init_nonempty:
  "s \<noteq> [] \<Longrightarrow>
   fst (InteractionLogger_init (Some s) w) = \<lparr>obj_id = next_obj w, session_id = s\<rparr>"
  by (simp add: InteractionLogger_init_def Let_def)

lemma new_global_logger_nonempty:
  assumes "s \<noteq> []"
  shows "fst (new_global_logger (Some s) w) = \<lparr>obj_id = next_obj w, session_id = s\<rparr>"
    and "global_logger (snd (new_global_logger (Some s) w)) = Some \<lparr>obj_id = next_obj w, session_id = s\<rparr>"
    and "next_obj (snd (new_global_logger (Some s) w)) = Suc (next_obj w)"
  using assms by (simp_all add: new_global_logger_def InteractionLogger_init_def Let_def)

text \<open>
  C10, as the code has it.  With a global logger \<open>g\<close> in place, a call with \<open>None\<close>,
  with the empty string or with the session of \<open>g\<close> returns \<open>g\<close> and changes nothing;
  a call with a non-empty session identifier other than that of \<open>g\<close> creates a new logger
  object bound to it (a new object identity) and makes it the global logger; and the
  convenience function \<open>log_interaction\<close> called with no session identifier logs through
  \<open>g\<close>, that is, under the session \<open>g\<close> is bound to.
\<close>

theorem get_interaction_logger_reuses_global:
  assumes "global_logger w = Some g"
  shows
    "(sid = None \<or> sid = Some [] \<or> sid = Some (session_id g) \<longrightarrow>
        get_interaction_logger sid w = (g, w)) \<and>
     (\<forall>s. sid = Some s \<and> s \<noteq> [] \<and> s \<noteq> session_id g \<longrightarrow>
        fst (get_interaction_logger sid w) = \<lparr>obj_id = next_obj w, session_id = s\<rparr> \<and>
        global_logger (snd (get_interaction_logger sid w)) = Some (fst (get_interaction_logger sid w)) \<and>
        (obj_id g < next_obj w \<longrightarrow> obj_id (fst (get_interaction_logger sid w)) \<noteq> obj_id g)) \<and>
     log_interaction et ui ar an d md er None now w =
       InteractionLogger_log_interaction g et ui ar an d md er now w"
  using assms
  by (auto simp: get_interaction_logger_def log_interaction_def new_global_logger_nonempty)

lemma session_world_global: "global_logger session_world = Some example_logger"
  by (simp add: session_world_def get_interaction_logger_def initial_world_def
        new_global_logger_nonempty example_logger_def)

lemma session_world_next_obj: "next_obj session_world = 1"
  by (simp add: session_world_def get_interaction_logger_def initial_world_def
        new_global_logger_nonempty)

theorem get_interaction_logger_reuses_global_witness:
  "get_interaction_logger None session_world = (example_logger, session_world) \<and>
   get_interaction_logger (Some ''s1'') session_world = (example_logger, session_world) \<and>
   fst (get_interaction_logger (Some ''s2'') session_world) = \<lparr>obj_id = 1, session_id = ''s2''\<rparr> \<and>
   obj_id (fst (get_interaction_logger (Some ''s2'') session_world)) \<noteq> obj_id example_logger"
proof -
  note T = get_interaction_logger_reuses_global [OF session_world_global]
  have s1: "session_id example_logger = ''s1''" and o1: "obj_id example_logger < next_obj session_world"
    by (simp_all add: example_logger_def session_world_next_obj)
  from T [of None] have "get_interaction_logger None session_world = (example_logger, session_world)"
    by blast
  moreover from T [of "Some ''s1''"] s1
  have "get_interaction_logger (Some ''s1'') session_world = (example_logger, session_world)"
    by simp
  moreover from T [of "Some ''s2''"] s1 o1
  have "fst (get_interaction_logger (Some ''s2'') session_world) = \<lparr>obj_id = 1, session_id = ''s2''\<rparr>"
    and "obj_id (fst (get_interaction_logger (Some ''s2'') session_world)) \<noteq> obj_id example_logger"
    by (simp_all add: session_world_next_obj)
  ultimately show ?thesis by blast
qed

text \<open>
  C10 as stated fails for the empty string: it is a session identifier that is not
  \<open>None\<close> and differs from the one of the global logger, and the call returns the existing
  logger.
\<close>

theorem get_interaction_logger_empty_session_counterexample:
  "session_id example_logger \<noteq> [] \<and>
   global_logger session_world = Some example_logger \<and>
   get_interaction_logger (Some []) session_world = (example_logger, session_world)"
  by (simp add: session_world_global get_interaction_logger_def example_logger_def)

section \<open>Dated file names\<close>


















section \<open>Appending through the handler\<close>

lemma touch_dir_fields [simp]:
  "files (touch_dir fs p t) = files fs"
  "opened (touch_dir fs p t) = opened fs"
  "readonly (touch_dir fs p t) = readonly fs"
  "full (touch_dir fs p t) = full fs"
  "fnmatch (touch_dir fs p t) = fnmatch fs"
  by (simp_all add: touch_dir_def)























section \<open>Rotation on day change\<close>













end
